theory Spec2Isabelle
  imports Main "HOL-Library.Char_ord" "HOL-Library.List_Lexorder"
begin

section \<open>Text utilities behind grep, sed and sort\<close>

text \<open>
  The two audit scripts (\<^verbatim>\<open>scripts/dev-audit.sh\<close> and \<^verbatim>\<open>scripts/preflight.sh\<close>) inspect
  \<^verbatim>\<open>index.html\<close> with \<^verbatim>\<open>grep\<close>, which works line by line. A document is a string;
  \<open>lines_of\<close> cuts it at the newline character, a final newline not opening a further line.
\<close>

fun split_nl :: "string \<Rightarrow> string list" where
  "split_nl [] = [[]]"
| "split_nl (c # cs) =
     (if c = CHR 0x0A then [] # split_nl cs
      else (case split_nl cs of [] \<Rightarrow> [[c]] | l # ls \<Rightarrow> (c # l) # ls))"

definition lines_of :: "string \<Rightarrow> string list" where
  "lines_of doc = (let ls = split_nl doc in if last ls = [] then butlast ls else ls)"

text \<open>\<^verbatim>\<open>grep -i\<close> folds the ASCII letters.\<close>

definition lower :: "char \<Rightarrow> char" where
  "lower c =
     (if CHR ''A'' \<le> c \<and> c \<le> CHR ''Z'' then char_of (of_char c + (32 :: nat)) else c)"

definition starts_with :: "string \<Rightarrow> string \<Rightarrow> bool" where
  "starts_with pat s = (take (length pat) s = pat)"

fun contains :: "string \<Rightarrow> string \<Rightarrow> bool" where
  "contains pat [] = (pat = [])"
| "contains pat (c # cs) = (starts_with pat (c # cs) \<or> contains pat cs)"

definition contains_ci :: "string \<Rightarrow> string \<Rightarrow> bool" where
  "contains_ci pat s = contains (map lower pat) (map lower s)"

text \<open>The text after the first occurrence of \<open>pat\<close>, if there is one.\<close>

fun after_first :: "string \<Rightarrow> string \<Rightarrow> string option" where
  "after_first pat [] = (if pat = [] then Some [] else None)"
| "after_first pat (c # cs) =
     (if starts_with pat (c # cs) then Some (drop (length pat) (c # cs))
      else after_first pat cs)"

text \<open>
  \<^verbatim>\<open>grep PATTERN file\<close> selects the matching lines; \<^verbatim>\<open>grep -c\<close> prints how many LINES
  matched, \<^verbatim>\<open>grep -q\<close> succeeds when at least one did.
\<close>

definition grep :: "(string \<Rightarrow> bool) \<Rightarrow> string \<Rightarrow> string list" where
  "grep matches doc = filter matches (lines_of doc)"

definition grep_c :: "(string \<Rightarrow> bool) \<Rightarrow> string \<Rightarrow> nat" where
  "grep_c matches doc = length (grep matches doc)"

definition grep_q :: "(string \<Rightarrow> bool) \<Rightarrow> string \<Rightarrow> bool" where
  "grep_q matches doc = (grep matches doc \<noteq> [])"

text \<open>
  The number of places where the pattern occurs in a text, whatever the lines: what
  \<^verbatim>\<open>grep -io PATTERN | wc -l\<close> counts for a pattern that cannot overlap itself.
\<close>

fun occurrences :: "string \<Rightarrow> string \<Rightarrow> nat" where
  "occurrences pat [] = 0"
| "occurrences pat (c # cs) =
     (if starts_with pat (c # cs) then 1 else 0) + occurrences pat cs"

definition occurrences_ci :: "string \<Rightarrow> string \<Rightarrow> nat" where
  "occurrences_ci pat s = occurrences (map lower pat) (map lower s)"

text \<open>Decimal numerals, for the counts that the messages print.\<close>

fun dec :: "nat \<Rightarrow> string" where
  "dec n = (if n < 10 then [''0123456789'' ! n]
            else dec (n div 10) @ [''0123456789'' ! (n mod 10)])"

declare dec.simps [simp del]

section \<open>The world a run sees, and the state of the shell\<close>

text \<open>
  What a script prints and does is recorded as a trace of events. \<open>INFO\<close>, \<open>OK\<close>, \<open>WARN\<close>
  and \<open>FAIL\<close> are the lines of the four logging helpers (\<^verbatim>\<open>info\<close>/\<^verbatim>\<open>log_info\<close>, ...), the
  colour codes left out; \<open>Print\<close> is any other line on standard output, \<open>Err\<close> a diagnostic
  of the shell itself. \<open>Spawn tool pid\<close> is a server process put in the background,
  \<open>Probe\<close> one readiness request, \<open>Sleep ms\<close> a pause, \<open>Get path\<close> one smoke-test request,
  \<open>Kill\<close> and \<open>Kill9\<close> the two signals of \<^verbatim>\<open>kill_pid\<close>.
\<close>

datatype event =
    INFO string | OK string | WARN string | FAIL string
  | Print string | Err string
  | Spawn string string | Probe | Sleep nat | Get string
  | Kill string | Kill9 string

text \<open>
  What \<^verbatim>\<open>curl\<close> meets: no completed HTTP exchange (connection refused, timeout), or a
  response with a status code.
\<close>

datatype response = Refused | Http nat

text \<open>
  Everything outside the script. \<open>regular p\<close> is \<^verbatim>\<open>[ -f p ]\<close> for the path as the script
  writes it; \<open>installed c\<close> is \<^verbatim>\<open>command -v c\<close>; \<open>pathname_expansion\<close> is what the shell
  substitutes for an unquoted word that holds a glob character; \<open>large_assets\<close> is the
  outcome of \<^verbatim>\<open>find assets downloads -type f -size +300k\<close> (\<open>None\<close> when find fails), each
  file with the size \<^verbatim>\<open>ls -lh\<close> shows; \<open>probe n\<close> answers the n-th readiness request and
  \<open>fetch p\<close> a smoke-test request; \<open>fresh_pid\<close> is the process id the system gives the
  server. \<open>nounset_bang\<close> tells whether this bash treats the expansion of an unset
  \<^verbatim>\<open>$!\<close> under \<^verbatim>\<open>set -u\<close> as the fatal "unbound variable" (bash 5 does).
\<close>

record world =
  args :: "string list"
  root :: string
  installed :: "string \<Rightarrow> bool"
  regular :: "string \<Rightarrow> bool"
  index_text :: string
  pathname_expansion :: "string \<Rightarrow> string list"
  large_assets :: "(string \<times> string) list option"
  probe :: "nat \<Rightarrow> response"
  fetch :: "string \<Rightarrow> response"
  log_tail :: "string \<Rightarrow> string list"
  fresh_pid :: string
  nounset_bang :: bool

text \<open>
  The shell's own state: the trace so far, the script's global variables
  (\<^verbatim>\<open>YES\<close> and \<^verbatim>\<open>NO_DEV\<close> exist in dev-audit.sh only, \<^verbatim>\<open>SHOW_LOGS\<close> and \<^verbatim>\<open>TIMEOUT\<close> in
  preflight.sh only; \<^verbatim>\<open>DEV_PID\<close> is unset until assigned), the special parameter
  \<^verbatim>\<open>$!\<close> of the main shell (\<open>last_bg\<close>, unset until the main shell itself puts a job in
  the background), the server processes alive, and whether \<^verbatim>\<open>trap cleanup EXIT INT TERM\<close>
  has been executed.
\<close>

record shell =
  trace :: "event list"
  MODE :: string
  PORT :: string
  YES :: string
  NO_DEV :: string
  SHOW_LOGS :: string
  TIMEOUT :: string
  DEV_PID :: "string option"
  last_bg :: "string option"
  procs :: "string list"
  trapped :: bool

text \<open>
  A command either lets the script go on, or ends it with an exit status (\<^verbatim>\<open>exit n\<close>, or
  a failing command under \<^verbatim>\<open>set -e\<close>, or an unbound variable under \<^verbatim>\<open>set -u\<close>), or leaves
  it in the endless \<^verbatim>\<open>while true; do sleep 1; done\<close> of dev mode.
\<close>

datatype outcome = Continue shell | Halt nat shell | Idle shell

fun steps :: "(shell \<Rightarrow> outcome) list \<Rightarrow> shell \<Rightarrow> outcome" where
  "steps [] s = Continue s"
| "steps (f # fs) s = (case f s of Continue s' \<Rightarrow> steps fs s' | other \<Rightarrow> other)"

fun state_of :: "outcome \<Rightarrow> shell" where
  "state_of (Continue s) = s"
| "state_of (Halt n s) = s"
| "state_of (Idle s) = s"

definition emit :: "event \<Rightarrow> shell \<Rightarrow> shell" where
  "emit e s = s\<lparr>trace := trace s @ [e]\<rparr>"

definition emits :: "event list \<Rightarrow> shell \<Rightarrow> shell" where
  "emits es s = s\<lparr>trace := trace s @ es\<rparr>"

text \<open>\<^verbatim>\<open>fail\<close> (dev-audit.sh) and \<^verbatim>\<open>log_fail\<close> (preflight.sh): print the line, \<^verbatim>\<open>exit 1\<close>.\<close>

definition fail :: "string \<Rightarrow> shell \<Rightarrow> outcome" where
  "fail msg s = Halt 1 (emit (FAIL msg) s)"

definition have_cmd :: "world \<Rightarrow> string \<Rightarrow> bool" where
  "have_cmd w c = installed w c"

definition need_cmd :: "world \<Rightarrow> string \<Rightarrow> shell \<Rightarrow> outcome" where
  "need_cmd w c s = (if have_cmd w c then Continue s else fail (''Missing required command: '' @ c) s)"

text \<open>The state either script starts from: its defaults, nothing printed, no process.\<close>

definition initial :: shell where
  "initial = \<lparr>trace = [], MODE = ''audit'', PORT = ''3000'', YES = ''0'', NO_DEV = ''0'',
     SHOW_LOGS = ''0'', TIMEOUT = ''12'', DEV_PID = None, last_bg = None, procs = [],
     trapped = False\<rparr>"

section \<open>Argument parsing\<close>

text \<open>\<^verbatim>\<open>shift\<close> fails, changing nothing, when there is no positional parameter left.\<close>

fun shift :: "string list \<Rightarrow> string list option" where
  "shift [] = None"
| "shift (a # rest) = Some rest"

definition audit_usage :: "string list" where
  "audit_usage =
    [''Usage: bash scripts/dev-audit.sh [--audit|--dev] [--port 3000] [--yes] [--no-dev]'',
     '''',
     ''--audit   Run all checks (default)'',
     ''--dev     Run checks, then start local dev server and smoke-test endpoints'',
     ''--port    Port for local server (default 3000)'',
     ''--yes     Non-interactive where possible'',
     ''--no-dev  Skip starting dev server (useful if you run it elsewhere)'',
     '''']"

text \<open>
  dev-audit.sh, lines 53-76. Each turn of the loop looks at \<^verbatim>\<open>$1\<close> and ends with
  \<^verbatim>\<open>shift\<close>. The \<^verbatim>\<open>--port\<close> arm reads \<^verbatim>\<open>${2:-}\<close> (empty when there is no \<^verbatim>\<open>$2\<close>) and
  shifts once itself, so that the closing \<^verbatim>\<open>shift\<close> of that turn is the one that can find
  nothing left: it then returns 1 and \<^verbatim>\<open>set -e\<close> ends the script with that status,
  nothing printed.
\<close>

function parse_args :: "string list \<Rightarrow> shell \<Rightarrow> outcome" where
  "parse_args [] s = Continue s"
| "parse_args (a # rest) s =
     (if a = ''--audit'' then parse_args rest (s\<lparr>MODE := ''audit''\<rparr>)
      else if a = ''--dev'' then parse_args rest (s\<lparr>MODE := ''dev''\<rparr>)
      else if a = ''--port'' then
        (let s' = s\<lparr>PORT := (case rest of [] \<Rightarrow> [] | v # _ \<Rightarrow> v)\<rparr> in
         case shift rest of
           None \<Rightarrow> Halt 1 s'
         | Some rest' \<Rightarrow> parse_args rest' s')
      else if a = ''--yes'' then parse_args rest (s\<lparr>YES := ''1''\<rparr>)
      else if a = ''--no-dev'' then parse_args rest (s\<lparr>NO_DEV := ''1''\<rparr>)
      else if a = ''-h'' \<or> a = ''--help'' then Halt 0 (emits (map Print audit_usage) s)
      else fail (''Unknown arg: '' @ a) s)"
  by pat_completeness auto
termination
  by (relation "measure (\<lambda>(xs, s). length xs)") (auto elim: shift.elims)

definition usage :: "string list" where
  "usage =
    [''Static Site Preflight (2026-ready)'',
     '''',
     ''Usage:'',
     ''  bash preflight.sh [options]'',
     '''',
     ''Options:'',
     ''  --audit           Run only audits (default)'',
     ''  --dev             After audit start local server & smoke tests'',
     ''  --port <n>        Local server port (default 3000)'',
     ''  --logs            Print server logs even on successful smoke tests'',
     ''  --timeout <secs>  Local server readiness timeout (default 12s)'',
     ''  --help            Show this help'']"

text \<open>
  preflight.sh, lines 48-59. Here \<^verbatim>\<open>--port\<close> and \<^verbatim>\<open>--timeout\<close> read \<^verbatim>\<open>$2\<close> itself, which
  under \<^verbatim>\<open>set -u\<close> is the fatal "unbound variable" when the flag comes last. An unknown
  argument is echoed, followed by the usage text, and the script exits with 1.
\<close>

fun preflight_parse :: "string list \<Rightarrow> shell \<Rightarrow> outcome" where
  "preflight_parse [] s = Continue s"
| "preflight_parse (a # rest) s =
     (if a = ''--audit'' then preflight_parse rest (s\<lparr>MODE := ''audit''\<rparr>)
      else if a = ''--dev'' then preflight_parse rest (s\<lparr>MODE := ''dev''\<rparr>)
      else if a = ''--port'' then
        (case rest of
           [] \<Rightarrow> Halt 1 (emit (Err ''$2: unbound variable'') s)
         | v # rest' \<Rightarrow> preflight_parse rest' (s\<lparr>PORT := v\<rparr>))
      else if a = ''--logs'' then preflight_parse rest (s\<lparr>SHOW_LOGS := ''1''\<rparr>)
      else if a = ''--timeout'' then
        (case rest of
           [] \<Rightarrow> Halt 1 (emit (Err ''$2: unbound variable'') s)
         | v # rest' \<Rightarrow> preflight_parse rest' (s\<lparr>TIMEOUT := v\<rparr>))
      else if a = ''--help'' then Halt 0 (emits (map Print usage) s)
      else Halt 1 (emits (Print (''Unknown arg: '' @ a) # map Print usage) s))"

section \<open>The static checks of dev-audit.sh\<close>

definition INDEX :: string where
  "INDEX = ''index.html''"

definition index_present :: "world \<Rightarrow> shell \<Rightarrow> outcome" where
  "index_present w s =
     (if regular w INDEX then Continue s
      else fail (''index.html not found at repo root: '' @ root w) s)"

definition REQ_FILES :: "string list" where
  "REQ_FILES =
    [''index.html'', ''robots.txt'', ''sitemap.xml'', ''site.webmanifest'',
     ''css/reset.css'', ''css/tokens.css'', ''css/base.css'', ''css/layout.css'',
     ''css/components.css'', ''css/effects.css'',
     ''js/main.js'', ''js/a11y.js'', ''js/parallax.js'',
     ''downloads/jeffrey-plewak-resume.pdf'', ''downloads/jeffrey-plewak.vcf'',
     ''assets/favicon.png'', ''assets/icon-192.png'', ''assets/icon-512.png'',
     ''assets/images/og-image.png'', ''assets/images/jeffrey-plewak-portrait.jpg'',
     ''assets/images/jeffrey-plewak-portrait.webp'',
     ''assets/images/jeffrey-plewak-portrait.avif'']"

text \<open>
  \<^verbatim>\<open>check_single_document\<close>, lines 118-136. \<^verbatim>\<open>grep -ci\<close> prints the number of matching
  lines, which the script compares with the string \<^verbatim>\<open>1\<close>. The artifact pattern is an
  alternation of three literal texts.
\<close>

definition artifact_line :: "string \<Rightarrow> bool" where
  "artifact_line l =
     (contains ''oai_citation:'' l \<or> contains ''sediment://'' l \<or> contains ''file_0000'' l)"

definition check_single_document :: "world \<Rightarrow> shell \<Rightarrow> outcome" where
  "check_single_document w s =
     (let s1 = emit (INFO ''HTML structural checks (single document, no junk artifacts)'') s;
          doctype = dec (grep_c (contains_ci ''<!doctype html'') (index_text w));
          htmlend = dec (grep_c (contains_ci ''</html>'') (index_text w))
      in if doctype \<noteq> ''1'' then
           fail (''Expected exactly 1 <!doctype html>, found '' @ doctype) s1
         else if htmlend \<noteq> ''1'' then
           fail (''Expected exactly 1 </html>, found '' @ htmlend) s1
         else if grep_q artifact_line (index_text w) then
           fail (''Found citation artifacts (oai_citation/sediment/file_0000). ''
                 @ ''Remove them from index.html.'') s1
         else
           (let s2 = (if \<not> grep_q (contains ''END OF DOCUMENT'') (index_text w)
                      then emit (WARN (''Missing END-OF-DOCUMENT guard comment. Add: ''
                             @ ''<!-- END OF DOCUMENT: do not paste below this line -->'')) s1
                      else s1)
            in Continue (emit (OK ''HTML structure clean'') s2)))"

text \<open>
  \<^verbatim>\<open>check_required_files\<close>, lines 138-149: the loop goes through the whole manifest,
  printing a line for each path that is not a regular file and raising the flag
  \<^verbatim>\<open>missing\<close>; the flag is tested after the loop. The manifest is a parameter here; the
  script passes \<open>REQ_FILES\<close>.
\<close>

fun required_loop :: "world \<Rightarrow> string list \<Rightarrow> string \<Rightarrow> shell \<Rightarrow> string \<times> shell" where
  "required_loop w [] missing s = (missing, s)"
| "required_loop w (f # fs) missing s =
     (if \<not> regular w f
      then required_loop w fs ''1'' (emit (Print (''MISSING: '' @ f)) s)
      else required_loop w fs missing s)"

definition check_required_files :: "world \<Rightarrow> string list \<Rightarrow> shell \<Rightarrow> outcome" where
  "check_required_files w manifest s =
     (case required_loop w manifest ''0'' (emit (INFO ''Required file presence checks'') s) of
        (missing, s') \<Rightarrow>
          if missing = ''0'' then Continue (emit (OK ''All required files present'') s')
          else fail ''Missing required files (see list above)'' s')"

text \<open>
  The reference pipeline, shared by both scripts:
  \<^verbatim>\<open>grep -oE '(href|src)=\"/[^\"]+\"' | sed -E 's/^(href|src)=\"(\/[^\"]+)\"$/\2/' | sort -u\<close>.
  \<open>ref_at\<close> matches the pattern at the start of a text: the attribute name in lower case,
  \<^verbatim>\<open>="/\<close>, then one or more characters that are neither a double quote nor a backslash
  (both stand in the bracket expression), then the closing quote. It gives the path that
  sed keeps and the number of characters matched. \<open>scan_refs\<close> is \<^verbatim>\<open>grep -o\<close> on one line:
  leftmost matches, the search going on after each match.
\<close>

definition in_bracket :: "char \<Rightarrow> bool" where
  \<open>in_bracket c = (c \<noteq> CHR ''"'' \<and> c \<noteq> CHR 0x5C)\<close>

definition ref_at :: "string \<Rightarrow> (string \<times> nat) option" where
  \<open>ref_at t =
     (case (if starts_with ''href="/'' t then Some 7
            else if starts_with ''src="/'' t then Some 6 else None) of
        None \<Rightarrow> None
      | Some k \<Rightarrow>
          (let body = takeWhile in_bracket (drop k t);
               rest = dropWhile in_bracket (drop k t)
           in if body \<noteq> [] \<and> starts_with ''"'' rest
              then Some (CHR ''/'' # body, k + length body + 1)
              else None))\<close>

fun scan_refs :: "string \<Rightarrow> string list" where
  "scan_refs [] = []"
| "scan_refs (c # cs) =
     (case ref_at (c # cs) of
        Some (path, n) \<Rightarrow> path # scan_refs (drop (n - 1) cs)
      | None \<Rightarrow> scan_refs cs)"

definition grep_refs :: "string \<Rightarrow> string list" where
  "grep_refs doc = concat (map scan_refs (lines_of doc))"

definition extract_refs :: "string \<Rightarrow> string list" where
  "extract_refs doc = sort (remdups (grep_refs doc))"

text \<open>
  \<^verbatim>\<open>for r in $refs\<close> leaves the expansion unquoted: each line of \<^verbatim>\<open>refs\<close> is split at
  blanks and tabs (the lines themselves are already apart, newline being in \<^verbatim>\<open>IFS\<close>), and
  a word holding \<^verbatim>\<open>*\<close>, \<^verbatim>\<open>?\<close> or \<^verbatim>\<open>[\<close> is replaced by the file names it matches, if any.
\<close>

definition is_ifs :: "char \<Rightarrow> bool" where
  "is_ifs c = (c = CHR '' '' \<or> c = CHR 0x09 \<or> c = CHR 0x0A)"

fun split_ifs :: "string \<Rightarrow> string list" where
  "split_ifs [] = [[]]"
| "split_ifs (c # cs) =
     (if is_ifs c then [] # split_ifs cs
      else (case split_ifs cs of [] \<Rightarrow> [[c]] | l # ls \<Rightarrow> (c # l) # ls))"

definition word_split :: "string \<Rightarrow> string list" where
  "word_split t = filter (\<lambda>word. word \<noteq> []) (split_ifs t)"

definition has_glob :: "string \<Rightarrow> bool" where
  "has_glob word = list_ex (\<lambda>c. c = CHR ''*'' \<or> c = CHR ''?'' \<or> c = CHR ''['') word"

definition expand :: "world \<Rightarrow> string \<Rightarrow> string list" where
  "expand w word =
     (if has_glob word
      then (case pathname_expansion w word of [] \<Rightarrow> [word] | ms \<Rightarrow> ms)
      else [word])"

definition loop_words :: "world \<Rightarrow> string list \<Rightarrow> string list" where
  "loop_words w refs = concat (map (expand w) (concat (map word_split refs)))"

text \<open>
  \<^verbatim>\<open>check_internal_refs\<close>, lines 151-170. When the document has no such attribute at all,
  \<^verbatim>\<open>grep\<close> exits with 1, \<^verbatim>\<open>pipefail\<close> makes that the status of the pipeline and so of the
  assignment to \<^verbatim>\<open>refs\<close>, and \<^verbatim>\<open>set -e\<close> ends the script there with status 1.
\<close>

fun refs_loop :: "world \<Rightarrow> string list \<Rightarrow> string \<Rightarrow> shell \<Rightarrow> string \<times> shell" where
  "refs_loop w [] bad s = (bad, s)"
| "refs_loop w (r # rs) bad s =
     (if \<not> regular w (''.'' @ r)
      then refs_loop w rs ''1''
             (emit (Print (''BROKEN: '' @ r @ '' (missing .'' @ r @ '')'')) s)
      else refs_loop w rs bad s)"

definition check_internal_refs :: "world \<Rightarrow> shell \<Rightarrow> outcome" where
  "check_internal_refs w s =
     (let s1 = emit (INFO ''Internal href/src references resolve to real files'') s
      in if grep_refs (index_text w) = [] then Halt 1 s1
         else
           (case refs_loop w (loop_words w (extract_refs (index_text w))) ''0'' s1 of
              (bad, s') \<Rightarrow>
                if bad = ''0'' then Continue (emit (OK ''All internal href/src references resolve'') s')
                else fail ''Broken internal asset references (see above)'' s'))"

text \<open>
  \<^verbatim>\<open>check_seo_basics\<close>, lines 172-191. The title pattern \<^verbatim>\<open><title>.*</title>\<close> wants both
  tags on one line. In \<^verbatim>\<open>application/ld\+json\<close> the \<^verbatim>\<open>\+\<close> of a basic regular expression
  repeats the \<^verbatim>\<open>d\<close> before it.
\<close>

definition title_line :: "string \<Rightarrow> bool" where
  "title_line l =
     (case after_first (map lower ''<title>'') (map lower l) of
        None \<Rightarrow> False
      | Some rest \<Rightarrow> contains (map lower ''</title>'') rest)"

fun ld_json_at :: "string \<Rightarrow> bool" where
  "ld_json_at [] = False"
| "ld_json_at (c # cs) =
     ((starts_with ''application/l'' (c # cs)
        \<and> takeWhile (\<lambda>x. x = CHR ''d'') (drop 13 (c # cs)) \<noteq> []
        \<and> starts_with ''json'' (dropWhile (\<lambda>x. x = CHR ''d'') (drop 13 (c # cs))))
      \<or> ld_json_at cs)"

definition ld_json_line :: "string \<Rightarrow> bool" where
  "ld_json_line l = ld_json_at (map lower l)"

definition warn_unless :: "bool \<Rightarrow> string \<Rightarrow> shell \<Rightarrow> shell" where
  "warn_unless found msg s = (if found then s else emit (WARN msg) s)"

definition check_seo_basics :: "world \<Rightarrow> shell \<Rightarrow> outcome" where
  \<open>check_seo_basics w s =
     (let doc = index_text w;
          s1 = emit (INFO ''SEO checks (static, high-signal)'') s
      in if \<not> grep_q title_line doc then fail ''Missing <title>'' s1
         else if \<not> grep_q (contains_ci ''meta name="description"'') doc
           then fail ''Missing meta description'' s1
         else
           (let s2 = warn_unless (grep_q (contains_ci ''rel="canonical"'') doc)
                       ''Missing canonical link'' s1;
                s3 = warn_unless (grep_q (contains_ci ''meta name="robots"'') doc)
                       ''Missing robots meta'' s2;
                s4 = warn_unless (grep_q (contains_ci ''property="og:title"'') doc)
                       ''Missing og:title'' s3;
                s5 = warn_unless (grep_q (contains_ci ''property="og:description"'') doc)
                       ''Missing og:description'' s4;
                s6 = warn_unless (grep_q (contains_ci ''property="og:image"'') doc)
                       ''Missing og:image'' s5;
                s7 = warn_unless (grep_q (contains_ci ''name="twitter:card"'') doc)
                       ''Missing twitter:card'' s6;
                s8 = warn_unless (grep_q ld_json_line doc)
                       ''Missing JSON-LD schema script'' s7
            in Continue (emit (OK ''SEO baseline present'') s8)))\<close>

text \<open>
  \<^verbatim>\<open>check_accessibility_basics\<close>, lines 193-206. The count of \<^verbatim>\<open><h1\<close> comes from the
  pipeline \<^verbatim>\<open>grep -io '<h1' | wc -l | tr -d ' '\<close>: with no heading at all \<^verbatim>\<open>grep\<close> exits with 1
  and, by \<^verbatim>\<open>pipefail\<close> and \<^verbatim>\<open>set -e\<close>, the script ends there.
\<close>

fun html_lang_at :: "string \<Rightarrow> string \<Rightarrow> bool" where
  "html_lang_at attr [] = False"
| "html_lang_at attr (c # cs) =
     ((starts_with ''<html'' (c # cs)
        \<and> contains attr (takeWhile (\<lambda>x. x \<noteq> CHR ''>'') (drop 5 (c # cs))))
      \<or> html_lang_at attr cs)"

definition h1_count :: "string \<Rightarrow> nat" where
  "h1_count doc = sum_list (map (occurrences_ci ''<h1'') (lines_of doc))"

definition img_without_alt :: "string \<Rightarrow> bool" where
  "img_without_alt l = (contains ''<img'' l \<and> \<not> contains ''alt='' l)"

definition check_accessibility_basics :: "world \<Rightarrow> shell \<Rightarrow> outcome" where
  \<open>check_accessibility_basics w s =
     (let doc = index_text w;
          s1 = emit (INFO ''A11y checks (static)'') s;
          s2 = warn_unless (grep_q (\<lambda>l. html_lang_at ''lang="en"'' (map lower l)) doc)
                 ''Missing lang="en" on <html>'' s1
      in if h1_count doc = 0 then Halt 1 s2
         else
           (let s3 = warn_unless (dec (h1_count doc) = ''1'')
                       (''Expected 1 <h1>, found '' @ dec (h1_count doc)) s2;
                s4 = warn_unless (\<not> grep_q img_without_alt doc)
                       ''Found <img> without alt attribute'' s3
            in Continue (emit (OK ''A11y baseline ok'') s4)))\<close>

text \<open>
  \<^verbatim>\<open>check_perf_risks\<close>, lines 208-226. The listing printed for the large files is
  \<^verbatim>\<open>ls -lh | awk '{print $5, $9}'\<close>: size and name.
\<close>

definition check_perf_risks :: "world \<Rightarrow> shell \<Rightarrow> outcome" where
  \<open>check_perf_risks w s =
     (let s1 = emit (INFO ''Performance risk checks (file sizes, LCP candidates)'') s
      in case large_assets w of
           None \<Rightarrow> Halt 1 s1
         | Some found \<Rightarrow>
            (let large = dec (length found);
                 s2 = (if large \<noteq> ''0''
                       then emits (WARN (''Found '' @ large
                                     @ '' asset(s) >300KB. Consider compressing to reduce LCP.'')
                                   # map (\<lambda>(size, name). Print (size @ '' '' @ name)) found) s1
                       else emit (OK ''No assets over 300KB (good for LCP)'') s1);
                 s3 = (if \<not> grep_q (\<lambda>l. contains ''class="hero-avatar"'' l \<and> contains ''width='' l)
                              (index_text w)
                       then emit (WARN ''Hero avatar missing explicit width/height (CLS risk).'') s2
                       else emit (OK ''Hero avatar has explicit dimensions'') s2)
             in Continue s3))\<close>

text \<open>
  The placeholder pattern \<^verbatim>\<open>calendly.com/YOUR_HANDLE\<close> is a regular expression: its dot
  stands for any one character.
\<close>

fun placeholder_at :: "string \<Rightarrow> bool" where
  "placeholder_at [] = False"
| "placeholder_at (c # cs) =
     ((starts_with ''calendly'' (c # cs) \<and> 8 < length (c # cs)
        \<and> starts_with ''com/YOUR_HANDLE'' (drop 9 (c # cs)))
      \<or> placeholder_at cs)"

definition check_calendly_placeholder :: "world \<Rightarrow> shell \<Rightarrow> outcome" where
  "check_calendly_placeholder w s =
     (let s1 = emit (INFO ''Calendly placeholder check'') s
      in if grep_q placeholder_at (index_text w)
         then Continue (emit (WARN ''Calendly URL is still placeholder. Replace with your real link.'') s1)
         else Continue (emit (OK ''Calendly URL looks non-placeholder'') s1))"

definition check_vercel_config :: "world \<Rightarrow> shell \<Rightarrow> outcome" where
  "check_vercel_config w s =
     (let s1 = emit (INFO ''Vercel config checks'') s;
          s2 = (if regular w ''vercel.json'' then emit (OK ''vercel.json present'') s1
                else emit (WARN (''vercel.json missing (optional for pure static; ''
                        @ ''recommended if you need headers/redirects).'')) s1);
          s3 = (if regular w ''build.sh'' then emit (OK ''build.sh present'') s2
                else emit (WARN (''build.sh missing. If Vercel tries to run ''
                        @ ''@vercel/static-build:build.sh, it may fail.'')) s2);
          s4 = (if regular w ''package.json''
                then emit (WARN (''package.json present. Ensure it doesn't set a build ''
                        @ ''command that conflicts with static hosting.'')) s3
                else s3)
      in Continue s4)"

section \<open>The server, the smoke tests and the exit trap of dev-audit.sh\<close>

text \<open>
  \<^verbatim>\<open>(vercel dev --listen "$PORT" >log 2>&1 &) || true\<close>: the server is put in the
  background by a subshell. The job belongs to that subshell, so the \<^verbatim>\<open>$!\<close> of the main
  shell (\<open>last_bg\<close>) is not touched.
\<close>

definition spawn_in_subshell :: "world \<Rightarrow> string \<Rightarrow> shell \<Rightarrow> shell" where
  "spawn_in_subshell w tool s =
     (emit (Spawn tool (fresh_pid w)) s)\<lparr>procs := procs s @ [fresh_pid w]\<rparr>"

text \<open>
  \<^verbatim>\<open>DEV_PID=$!\<close> in the main shell. With \<^verbatim>\<open>$!\<close> unset, the expansion is either the
  fatal error of \<^verbatim>\<open>set -u\<close> or the empty string, as the bash at hand has it.
\<close>

definition assign_dev_pid :: "world \<Rightarrow> shell \<Rightarrow> outcome" where
  "assign_dev_pid w s =
     (case last_bg s of
        Some pid \<Rightarrow> Continue (s\<lparr>DEV_PID := Some pid\<rparr>)
      | None \<Rightarrow>
          if nounset_bang w then Halt 1 (emit (Err ''$!: unbound variable'') s)
          else Continue (s\<lparr>DEV_PID := Some []\<rparr>))"

text \<open>\<^verbatim>\<open>curl -s\<close> without \<^verbatim>\<open>-f\<close> succeeds as soon as an HTTP response arrives.\<close>

fun curl_ok :: "response \<Rightarrow> bool" where
  "curl_ok Refused = False"
| "curl_ok (Http code) = True"

text \<open>\<^verbatim>\<open>curl -w "%{http_code}"\<close> prints the status, or \<^verbatim>\<open>000\<close> when there was no response.\<close>

fun http_code :: "response \<Rightarrow> string" where
  "http_code Refused = ''000''"
| "http_code (Http code) = dec code"

text \<open>
  The tool selection of \<^verbatim>\<open>start_dev_server\<close>, lines 264-282, and its readiness loop,
  lines 284-298: \<^verbatim>\<open>for i in $(seq 1 30)\<close>, one request per turn, 0.2 seconds (200 ms)
  of sleep after each request that failed.
\<close>

definition launch :: "world \<Rightarrow> shell \<Rightarrow> outcome" where
  "launch w s =
     (if have_cmd w ''vercel'' then
        assign_dev_pid w
          (spawn_in_subshell w ''vercel''
             (emit (INFO (''Starting Vercel dev on port '' @ PORT s)) s))
      else
        (let s1 = emit (WARN (''Vercel CLI not found. Fallback to python http.server on port ''
                          @ PORT s)) s
         in if have_cmd w ''python3''
            then assign_dev_pid w (spawn_in_subshell w ''python3'' s1)
            else fail ''Neither vercel nor python3 available to run a local server.'' s1))"

fun ready_loop :: "world \<Rightarrow> nat list \<Rightarrow> shell \<Rightarrow> bool \<times> shell" where
  "ready_loop w [] s = (False, s)"
| "ready_loop w (i # rest) s =
     (if curl_ok (probe w i) then (True, emit (OK ''Server responsive'') (emit Probe s))
      else ready_loop w rest (emit (Sleep 200) (emit Probe s)))"

definition dump_log :: "world \<Rightarrow> string \<Rightarrow> shell \<Rightarrow> shell" where
  "dump_log w file s = (if regular w file then emits (map Print (log_tail w file)) s else s)"

definition await_server :: "world \<Rightarrow> shell \<Rightarrow> outcome" where
  "await_server w s =
     (case ready_loop w [1..<31]
             (emit (INFO (''Waiting for http://localhost:'' @ PORT s @ '' to respond'')) s) of
        (True, s') \<Rightarrow> Continue s'
      | (False, s') \<Rightarrow>
          fail (''Server did not become ready on port '' @ PORT s)
            (dump_log w ''/tmp/jp-httpserver.log''
               (dump_log w ''/tmp/jp-vercel-dev.log''
                  (emit (Print ''---- server log ----'') s'))))"

definition start_dev_server :: "world \<Rightarrow> shell \<Rightarrow> outcome" where
  "start_dev_server w s =
     (if NO_DEV s = ''1'' then Continue (emit (WARN ''--no-dev set; skipping server start'') s)
      else steps [launch w, await_server w] s)"

definition smoke_paths :: "string list" where
  "smoke_paths =
    [''/'', ''/css/base.css'', ''/css/layout.css'', ''/css/components.css'',
     ''/css/effects.css'', ''/js/main.js'', ''/js/a11y.js'', ''/js/parallax.js'',
     ''/downloads/jeffrey-plewak-resume.pdf'', ''/downloads/jeffrey-plewak.vcf'',
     ''/assets/favicon.png'', ''/assets/images/og-image.png'']"

fun smoke_loop :: "world \<Rightarrow> string list \<Rightarrow> shell \<Rightarrow> outcome" where
  "smoke_loop w [] s = Continue s"
| "smoke_loop w (p # ps) s =
     (let code = http_code (fetch w (''http://localhost:'' @ PORT s @ p));
          s1 = emit (Print (code @ '' '' @ p)) (emit (Get p) s)
      in if code = ''200'' then smoke_loop w ps s1
         else fail (''Smoke test failed for '' @ p @ '' (HTTP '' @ code @ '')'') s1)"

definition smoke_test_endpoints :: "world \<Rightarrow> shell \<Rightarrow> outcome" where
  "smoke_test_endpoints w s =
     (if NO_DEV s = ''1'' then Continue s
      else
        (case smoke_loop w smoke_paths
                (emit (INFO ''Smoke testing key endpoints (HTTP 200 expected)'') s) of
           Continue s' \<Rightarrow> Continue (emit (OK ''All smoke tests passed'') s')
         | other \<Rightarrow> other))"

text \<open>
  \<^verbatim>\<open>kill_pid\<close> and \<^verbatim>\<open>cleanup\<close>, lines 29-44. \<^verbatim>\<open>kill -0\<close> tells whether the process is
  there; then come \<^verbatim>\<open>kill\<close>, 0.3 seconds of sleep and \<^verbatim>\<open>kill -9\<close>, after which the
  process is gone.
\<close>

definition kill_pid :: "string \<Rightarrow> shell \<Rightarrow> shell" where
  "kill_pid pid s =
     (if pid \<noteq> [] \<and> pid \<in> set (procs s)
      then (emits [Kill pid, Sleep 300, Kill9 pid] s)\<lparr>procs := removeAll pid (procs s)\<rparr>
      else s)"

definition cleanup :: "shell \<Rightarrow> shell" where
  "cleanup s =
     (case DEV_PID s of
        None \<Rightarrow> s
      | Some pid \<Rightarrow>
          if pid \<noteq> []
          then kill_pid pid (emit (INFO (''Stopping local dev server (pid='' @ pid @ '')'')) s)
          else s)"

text \<open>
  The end of a run. When the script leaves (its last command done, \<^verbatim>\<open>exit\<close>, or a fatal
  error), the \<^verbatim>\<open>EXIT\<close> trap runs if one was set. A signal (2 for INT, 15 for TERM)
  reaching a script that idles runs the same handler, after which the shell goes back to
  its loop, the handler holding no \<^verbatim>\<open>exit\<close>; without a trap the signal ends the shell
  with status 128 + signal, and nothing is run.
\<close>

definition run_exit_trap :: "shell \<Rightarrow> shell" where
  "run_exit_trap s = (if trapped s then cleanup s else s)"

fun finish :: "outcome \<Rightarrow> outcome" where
  "finish (Continue s) = Halt 0 (run_exit_trap s)"
| "finish (Halt n s) = Halt n (run_exit_trap s)"
| "finish (Idle s) = Idle s"

fun deliver :: "nat \<Rightarrow> outcome \<Rightarrow> outcome" where
  "deliver sig (Idle s) = (if trapped s then Idle (cleanup s) else Halt (128 + sig) s)"
| "deliver sig other = other"

text \<open>The last lines of dev-audit.sh, 343-351, and the whole script.\<close>

definition dev_complete :: "shell \<Rightarrow> outcome" where
  "dev_complete s =
     (case DEV_PID s of
        None \<Rightarrow> Halt 1 (emit (Err ''DEV_PID: unbound variable'') s)
      | Some pid \<Rightarrow>
          Idle (emit (OK (''Dev mode complete. Server is still running (pid='' @ pid
                       @ ''). Ctrl+C to stop.'')) s))"

definition dev_or_done :: "world \<Rightarrow> shell \<Rightarrow> outcome" where
  "dev_or_done w s =
     (if MODE s = ''dev'' then steps [start_dev_server w, smoke_test_endpoints w, dev_complete] s
      else Continue (emit (OK ''Audit complete'') s))"

definition set_trap :: "shell \<Rightarrow> outcome" where
  "set_trap s = Continue (s\<lparr>trapped := True\<rparr>)"

definition announce :: "world \<Rightarrow> shell \<Rightarrow> outcome" where
  "announce w s = Continue (emit (INFO (''Mode: '' @ MODE s)) (emit (INFO (''Repo: '' @ root w)) s))"

definition dev_audit_script :: "world \<Rightarrow> (shell \<Rightarrow> outcome) list" where
  "dev_audit_script w =
     [set_trap, parse_args (args w)]
     @ map (need_cmd w) [''bash'', ''grep'', ''sed'', ''awk'', ''find'', ''curl'', ''wc'']
     @ [index_present w, announce w,
        check_single_document w, check_required_files w REQ_FILES, check_internal_refs w,
        check_seo_basics w, check_accessibility_basics w, check_perf_risks w,
        check_calendly_placeholder w, check_vercel_config w,
        dev_or_done w]"

definition dev_audit :: "world \<Rightarrow> outcome" where
  "dev_audit w = finish (steps (dev_audit_script w) initial)"

section \<open>preflight.sh\<close>

definition banner :: "string \<Rightarrow> shell \<Rightarrow> shell" where
  "banner title s = emits [Print [], Print title] s"

definition preflight_index :: "world \<Rightarrow> string" where
  "preflight_index w = root w @ ''/index.html''"

text \<open>
  The structural check, lines 116-121. \<^verbatim>\<open>grep -ci ... || true\<close> leaves the count empty
  when the file cannot be read.
\<close>

definition count_lines :: "world \<Rightarrow> string \<Rightarrow> string" where
  "count_lines w pat =
     (if regular w (preflight_index w) then dec (grep_c (contains_ci pat) (index_text w))
      else [])"

definition preflight_structure :: "world \<Rightarrow> shell \<Rightarrow> outcome" where
  "preflight_structure w s =
     (let s1 = emit (INFO ''Checking index.html structural integrity'') s;
          doc_count = count_lines w ''<!doctype html'';
          end_count = count_lines w ''</html>''
      in if doc_count \<noteq> ''1'' then fail (''Expected single doctype, got '' @ doc_count) s1
         else if end_count \<noteq> ''1'' then fail (''Expected one '</html>', got '' @ end_count) s1
         else Continue (emit (OK ''HTML structure valid'') s1))"

text \<open>The required assets, lines 124-129: \<^verbatim>\<open>log_fail\<close> at the first path that is missing.\<close>

definition REQUIRED :: "string list" where
  "REQUIRED = [''robots.txt'', ''sitemap.xml'', ''css/base.css'', ''js/main.js'', ''assets/favicon.png'']"

fun preflight_required_loop :: "world \<Rightarrow> string list \<Rightarrow> shell \<Rightarrow> outcome" where
  "preflight_required_loop w [] s = Continue s"
| "preflight_required_loop w (f # fs) s =
     (if regular w (root w @ ''/'' @ f) then preflight_required_loop w fs s
      else fail (''Missing required: '' @ f) s)"

definition preflight_required :: "world \<Rightarrow> string list \<Rightarrow> shell \<Rightarrow> outcome" where
  "preflight_required w manifest s =
     (case preflight_required_loop w manifest (emit (INFO ''Checking required files'') s) of
        Continue s' \<Rightarrow> Continue (emit (OK ''Required files present'') s')
      | other \<Rightarrow> other)"

text \<open>The internal references, lines 132-137: \<^verbatim>\<open>log_fail\<close> at the first one that is broken.\<close>

fun preflight_refs_loop :: "world \<Rightarrow> string list \<Rightarrow> shell \<Rightarrow> outcome" where
  "preflight_refs_loop w [] s = Continue s"
| "preflight_refs_loop w (r # rs) s =
     (if regular w (''.'' @ r) then preflight_refs_loop w rs s
      else fail (''Broken ref: '' @ r) s)"

definition preflight_refs :: "world \<Rightarrow> shell \<Rightarrow> outcome" where
  "preflight_refs w s =
     (let s1 = emit (INFO ''Checking internal href/src refs'') s
      in if grep_refs (index_text w) = [] then Halt 1 s1
         else
           (case preflight_refs_loop w (loop_words w (extract_refs (index_text w))) s1 of
              Continue s' \<Rightarrow> Continue (emit (OK ''Internal refs resolve'') s')
            | other \<Rightarrow> other))"

text \<open>The SEO part, lines 140-143: a title and a description, nothing else.\<close>

definition preflight_seo :: "world \<Rightarrow> shell \<Rightarrow> outcome" where
  \<open>preflight_seo w s =
     (let s1 = emit (INFO ''Checking SEO meta'') s
      in if \<not> grep_q (contains_ci ''<title>'') (index_text w) then fail ''Missing <title>'' s1
         else if \<not> grep_q (contains_ci ''meta name="description"'') (index_text w)
           then fail ''Missing meta description'' s1
         else Continue (emit (OK ''Title + description present'') s1))\<close>

text \<open>The accessibility part and the placeholder test, lines 146-154.\<close>

definition preflight_a11y :: "world \<Rightarrow> shell \<Rightarrow> outcome" where
  "preflight_a11y w s =
     (let doc = index_text w;
          s1 = emit (INFO ''Checking a11y basics'') s;
          s2 = warn_unless (grep_q (\<lambda>l. html_lang_at ''lang='' (map lower l)) doc)
                 ''Missing lang attribute'' s1
      in if h1_count doc = 0 then Halt 1 s2
         else
           (let s3 = warn_unless (dec (h1_count doc) = ''1'')
                       (''Expected 1 H1, found '' @ dec (h1_count doc)) s2;
                s4 = warn_unless (grep_q (contains ''alt='') doc) ''Missing alt on images'' s3
            in Continue (emit (OK ''A11y basics checked'') s4)))"

definition preflight_placeholder :: "world \<Rightarrow> shell \<Rightarrow> outcome" where
  "preflight_placeholder w s =
     (if grep_q placeholder_at (index_text w)
      then Continue (emit (WARN ''Replace Calendly placeholder'') s)
      else Continue (emit (OK ''Calendly link non-placeholder'') s))"

text \<open>
  \<^verbatim>\<open>start_server\<close>, lines 75-97. The readiness loop counts its turns in \<^verbatim>\<open>t\<close> and tests
  \<^verbatim>\<open>[ $t -lt $TIMEOUT ]\<close> after each request that failed and the half second (500 ms) of
  sleep that follows it. \<open>int_of_dec\<close> reads an integer numeral with an optional sign; for
  any other text the test fails with an error, which takes the \<^verbatim>\<open>log_fail\<close> side just
  as a false comparison does. (A timeout text that the shell would split into several
  words is read here as such a text.)
\<close>

fun nat_of_digits :: "string \<Rightarrow> nat \<Rightarrow> nat option" where
  "nat_of_digits [] acc = Some acc"
| "nat_of_digits (c # cs) acc =
     (case map_of (zip ''0123456789'' [0, 1, 2, 3, 4, 5, 6, 7, 8, 9]) c of
        None \<Rightarrow> None
      | Some d \<Rightarrow> nat_of_digits cs (10 * acc + d))"

definition unsigned :: "string \<Rightarrow> nat option" where
  "unsigned ds = (if ds = [] then None else nat_of_digits ds 0)"

definition int_of_dec :: "string \<Rightarrow> int option" where
  "int_of_dec t =
     (if starts_with ''-'' t then map_option (\<lambda>n. - int n) (unsigned (drop 1 t))
      else if starts_with ''+'' t then map_option int (unsigned (drop 1 t))
      else map_option int (unsigned t))"

definition test_lt :: "nat \<Rightarrow> string \<Rightarrow> bool" where
  "test_lt t bound = (case int_of_dec bound of Some k \<Rightarrow> int t < k | None \<Rightarrow> False)"

definition preflight_launch :: "world \<Rightarrow> shell \<Rightarrow> outcome" where
  "preflight_launch w s =
     (let s1 = emit (INFO (''Starting dev server on port '' @ PORT s)) s
      in if have_cmd w ''vercel''
         then assign_dev_pid w (spawn_in_subshell w ''vercel'' (emit (INFO ''Using Vercel CLI'') s1))
         else if have_cmd w ''python3''
         then assign_dev_pid w
                (spawn_in_subshell w ''python3''
                   (emit (INFO ''Falling back to python3 http.server'') s1))
         else fail ''No server tool (vercel or python3) found'' s1)"

function wait_ready :: "world \<Rightarrow> nat \<Rightarrow> shell \<Rightarrow> outcome" where
  "wait_ready w t s =
     (if curl_ok (probe w (t + 1)) then Continue (emit Probe s)
      else
        (let s1 = emit (Sleep 500) (emit Probe s)
         in if test_lt (t + 1) (TIMEOUT s) then wait_ready w (t + 1) s1
            else fail (''Server not ready after '' @ TIMEOUT s @ '' sec'') s1))"
  by pat_completeness auto
termination
  by (relation "measure (\<lambda>(w, t, s). case int_of_dec (TIMEOUT s) of
                                        Some k \<Rightarrow> nat (k - int t) | None \<Rightarrow> 0)")
     (auto simp: test_lt_def emit_def split: option.splits)

declare wait_ready.simps [simp del]

definition preflight_await :: "world \<Rightarrow> shell \<Rightarrow> outcome" where
  "preflight_await w s =
     (case wait_ready w 0 s of
        Continue s' \<Rightarrow>
          Continue (emit (OK (''Server responsive at http://localhost:'' @ PORT s')) s')
      | other \<Rightarrow> other)"

definition start_server :: "world \<Rightarrow> shell \<Rightarrow> outcome" where
  "start_server w s = steps [preflight_launch w, preflight_await w] s"

text \<open>
  \<^verbatim>\<open>smoke_tests\<close>, lines 99-108. Its last command is the list
  \<^verbatim>\<open>[ $SHOW_LOGS -eq 1 ] && (...)\<close>: when the logs were not asked for, the test fails, the
  function returns 1, and \<^verbatim>\<open>set -e\<close> ends the script at the call.
\<close>

definition preflight_smoke_paths :: "string list" where
  "preflight_smoke_paths = [''/'', ''/css/base.css'', ''/js/main.js'', ''/assets/favicon.png'']"

fun preflight_smoke_loop :: "world \<Rightarrow> string list \<Rightarrow> shell \<Rightarrow> outcome" where
  "preflight_smoke_loop w [] s = Continue s"
| "preflight_smoke_loop w (p # ps) s =
     (let code = http_code (fetch w (''http://localhost:'' @ PORT s @ p));
          s1 = emit (Print (code @ '' '' @ p)) (emit (Get p) s)
      in if code = ''200'' then preflight_smoke_loop w ps s1
         else fail (''Smoke failed: '' @ p @ '' -> '' @ code) s1)"

definition smoke_tests :: "world \<Rightarrow> shell \<Rightarrow> outcome" where
  "smoke_tests w s =
     (case preflight_smoke_loop w preflight_smoke_paths (banner ''SMOKE TESTS'' s) of
        Continue s' \<Rightarrow>
          (let s1 = emit (OK ''Smoke tests passed'') s'
           in if SHOW_LOGS s1 = ''1''
              then Continue (emits (Print ''--- server log ---''
                       # map Print (log_tail w ''/tmp/vercel.log'' @ log_tail w ''/tmp/py.log'')) s1)
              else Halt 1 s1)
      | other \<Rightarrow> other)"

definition preflight_dev_complete :: "shell \<Rightarrow> outcome" where
  "preflight_dev_complete s =
     (case DEV_PID s of
        None \<Rightarrow> Halt 1 (emit (Err ''DEV_PID: unbound variable'') s)
      | Some pid \<Rightarrow> Idle (emit (INFO (''Dev mode complete (pid='' @ pid @ ''). Ctrl+C to stop.'')) s))"

definition preflight_dev :: "world \<Rightarrow> shell \<Rightarrow> outcome" where
  "preflight_dev w s =
     (if MODE s = ''dev'' then steps [start_server w, smoke_tests w, preflight_dev_complete] s
      else Continue s)"

definition preflight_script :: "world \<Rightarrow> (shell \<Rightarrow> outcome) list" where
  "preflight_script w =
     [preflight_parse (args w),
      (\<lambda>s. Continue (banner ''BEGIN AUDIT'' s)),
      preflight_structure w, preflight_required w REQUIRED, preflight_refs w,
      preflight_seo w, preflight_a11y w, preflight_placeholder w,
      (\<lambda>s. Continue (banner ''AUDIT COMPLETE'' s)),
      preflight_dev w]"

definition preflight :: "world \<Rightarrow> outcome" where
  "preflight w = finish (steps (preflight_script w) initial)"

section \<open>Reading outcomes and traces\<close>

fun exit_status :: "outcome \<Rightarrow> nat option" where
  "exit_status (Halt n s) = Some n"
| "exit_status (Continue s) = None"
| "exit_status (Idle s) = None"

fun continues :: "outcome \<Rightarrow> bool" where
  "continues (Continue s) = True"
| "continues (Halt n s) = False"
| "continues (Idle s) = False"

definition printed :: "outcome \<Rightarrow> event list" where
  "printed r = trace (state_of r)"

definition probes :: "event list \<Rightarrow> nat" where
  "probes tr = length (filter (\<lambda>e. e = Probe) tr)"


fun spawned :: "event list \<Rightarrow> string list" where
  "spawned [] = []"
| "spawned (Spawn tool pid # tr) = tool # spawned tr"
| "spawned (e # tr) = spawned tr"

fun requested :: "event list \<Rightarrow> string list" where
  "requested [] = []"
| "requested (Get path # tr) = path # requested tr"
| "requested (e # tr) = requested tr"

fun killed :: "event list \<Rightarrow> string list" where
  "killed [] = []"
| "killed (Kill pid # tr) = pid # killed tr"
| "killed (Kill9 pid # tr) = pid # killed tr"
| "killed (e # tr) = killed tr"

text \<open>
  A run at a glance: its exit status, its \<open>FAIL\<close> lines and shell errors, the servers
  it started, the processes it sent a signal to, and the server processes alive when it
  is over.
\<close>

fun complaints :: "event list \<Rightarrow> event list" where
  "complaints [] = []"
| "complaints (FAIL msg # tr) = FAIL msg # complaints tr"
| "complaints (Err msg # tr) = Err msg # complaints tr"
| "complaints (e # tr) = complaints tr"

definition report ::
  "outcome \<Rightarrow> nat option \<times> event list \<times> string list \<times> string list \<times> string list" where
  "report r =
     (exit_status r, complaints (printed r), spawned (printed r), killed (printed r),
      procs (state_of r))"

text \<open>
  The argument lists that a parser reads through without stopping: complete options that
  it knows, the help flags apart.
\<close>

fun audit_options :: "string list \<Rightarrow> bool" where
  "audit_options [] = True"
| "audit_options (a # rest) =
     (if a \<in> set [''--audit'', ''--dev'', ''--yes'', ''--no-dev''] then audit_options rest
      else if a = ''--port'' then (case rest of [] \<Rightarrow> False | v # rest' \<Rightarrow> audit_options rest')
      else False)"

definition audit_flags :: "string list" where
  "audit_flags = [''--audit'', ''--dev'', ''--port'', ''--yes'', ''--no-dev'', ''-h'', ''--help'']"

fun preflight_options :: "string list \<Rightarrow> bool" where
  "preflight_options [] = True"
| "preflight_options (a # rest) =
     (if a \<in> set [''--audit'', ''--dev'', ''--logs''] then preflight_options rest
      else if a \<in> set [''--port'', ''--timeout'']
        then (case rest of [] \<Rightarrow> False | v # rest' \<Rightarrow> preflight_options rest')
      else False)"

definition preflight_flags :: "string list" where
  "preflight_flags = [''--audit'', ''--dev'', ''--port'', ''--logs'', ''--timeout'', ''--help'']"

text \<open>A small site on which every check passes, for the concrete runs below.\<close>

definition page :: string where
  \<open>page = ''<!doctype html>\<newline><html lang="en">\<newline><head><title>Home</title>\<newline><meta name="description" content="portfolio">\<newline><link rel="stylesheet" href="/css/base.css">\<newline></head><body><h1>Hello</h1><script src="/js/main.js"></script></body>\<newline></html>\<newline>''\<close>

definition site :: world where
  "site = \<lparr>args = [], root = ''/site'', installed = (\<lambda>c. True), regular = (\<lambda>p. True),
     index_text = page, pathname_expansion = (\<lambda>word. []), large_assets = Some [],
     probe = (\<lambda>n. Refused), fetch = (\<lambda>url. Refused), log_tail = (\<lambda>file. [''server log line'']),
     fresh_pid = ''4242'', nounset_bang = False\<rparr>"

text \<open>
  Variations of it: no file at all; a server that answers every request with one status
  code; neither server tool installed.
\<close>

definition bare :: world where
  "bare = site\<lparr>regular := (\<lambda>p. False)\<rparr>"

definition answering :: "nat \<Rightarrow> world" where
  "answering code = site\<lparr>probe := (\<lambda>n. Http code), fetch := (\<lambda>url. Http code)\<rparr>"

definition toolless :: world where
  "toolless = site\<lparr>installed := (\<lambda>c. c \<notin> set [''vercel'', ''python3''])\<rparr>"

text \<open>
  The manifest entries that are not regular files, as dev-audit.sh names them and as
  preflight.sh does (under \<^verbatim>\<open>$ROOT\<close>).
\<close>

definition missing_from :: "world \<Rightarrow> string list \<Rightarrow> string list" where
  "missing_from w manifest = filter (\<lambda>f. \<not> regular w f) manifest"

definition missing_under :: "world \<Rightarrow> string list \<Rightarrow> string list" where
  "missing_under w manifest = filter (\<lambda>f. \<not> regular w (root w @ ''/'' @ f)) manifest"



text \<open>
  \<open>rounds n ms\<close> is the trace of \<open>n\<close> readiness requests that failed, each followed by
  its pause; \<open>shown_logs\<close> is what dev-audit.sh prints of the two server logs when it
  gives up.
\<close>

definition rounds :: "nat \<Rightarrow> nat \<Rightarrow> event list" where
  "rounds n ms = concat (replicate n [Probe, Sleep ms])"


text \<open>
  Two more documents: one that holds two doctype declarations on a single line, and one
  without a title.
\<close>

definition pasted :: string where
  \<open>pasted = ''<!DOCTYPE html><!doctype html><html lang="en"><head><title>Home</title></head><body><h1>Hi</h1></body></html>''\<close>


section \<open>Properties of the argument parsers\<close>

lemma steps_halt: "f s = Halt n s' \<Longrightarrow> steps (f # fs) s = Halt n s'"
  by simp

lemma steps_continue: "f s = Continue s' \<Longrightarrow> steps (f # fs) s = steps fs s'"
  by simp

text \<open>
  Reading through complete options changes variables only: nothing is printed and no
  process is touched.
\<close>

lemma parse_args_options:
  "audit_options pre \<Longrightarrow>
   \<exists>s'. parse_args (pre @ xs) s = parse_args xs s' \<and> trace s' = trace s
        \<and> DEV_PID s' = DEV_PID s \<and> procs s' = procs s \<and> trapped s' = trapped s
        \<and> last_bg s' = last_bg s"
proof (induction pre arbitrary: s rule: audit_options.induct)
  case 1
  show ?case by (intro exI [of _ s]) simp
next
  case (2 a rest)
  show ?case
  proof (cases "a \<in> set [''--audit'', ''--dev'', ''--yes'', ''--no-dev'']")
    case True
    with 2 have opts: "audit_options rest" by simp
    from True consider "a = ''--audit''" | "a = ''--dev''" | "a = ''--yes''" | "a = ''--no-dev''"
      by auto
    then show ?thesis
    proof cases
      case 1
      from "2.IH"(1) [OF True opts, of "s\<lparr>MODE := ''audit''\<rparr>"] 1 show ?thesis by auto
    next
      case 2
      from "2.IH"(1) [OF True opts, of "s\<lparr>MODE := ''dev''\<rparr>"] 2 show ?thesis by auto
    next
      case 3
      from "2.IH"(1) [OF True opts, of "s\<lparr>YES := ''1''\<rparr>"] 3 show ?thesis by auto
    next
      case 4
      from "2.IH"(1) [OF True opts, of "s\<lparr>NO_DEV := ''1''\<rparr>"] 4 show ?thesis by auto
    qed
  next
    case False
    with "2.prems" have port: "a = ''--port''" by (auto split: if_splits)
    with "2.prems" False obtain v rest' where rest: "rest = v # rest'" and opts: "audit_options rest'"
      by (cases rest) auto
    from "2.IH"(2) [OF False port rest opts, of "s\<lparr>PORT := v\<rparr>"] port rest
    show ?thesis by auto
  qed
qed

lemma parse_args_unknown:
  assumes "audit_options pre" "bad \<notin> set audit_flags"
  shows "\<exists>s'. parse_args (pre @ bad # rest) s = Halt 1 s' \<and> trace s' = trace s @ [FAIL (''Unknown arg: '' @ bad)]
        \<and> DEV_PID s' = DEV_PID s \<and> procs s' = procs s \<and> trapped s' = trapped s"
proof -
  from parse_args_options [OF assms(1), of "bad # rest" s] obtain s1 where
    s1: "parse_args (pre @ bad # rest) s = parse_args (bad # rest) s1" "trace s1 = trace s"
        "DEV_PID s1 = DEV_PID s" "procs s1 = procs s" "trapped s1 = trapped s"
    by blast
  from assms(2) have "parse_args (bad # rest) s1 = fail (''Unknown arg: '' @ bad) s1"
    by (simp add: audit_flags_def)
  with s1 show ?thesis by (simp add: fail_def emit_def)
qed

lemma parse_args_port_last:
  assumes "audit_options pre"
  shows "\<exists>s'. parse_args (pre @ [''--port'']) s = Halt 1 s' \<and> trace s' = trace s \<and> PORT s' = []
        \<and> DEV_PID s' = DEV_PID s \<and> procs s' = procs s \<and> trapped s' = trapped s"
proof -
  from parse_args_options [OF assms, of "[''--port'']" s] obtain s1 where
    s1: "parse_args (pre @ [''--port'']) s = parse_args [''--port''] s1" "trace s1 = trace s"
        "DEV_PID s1 = DEV_PID s" "procs s1 = procs s" "trapped s1 = trapped s"
    by blast
  have "parse_args [''--port''] s1 = Halt 1 (s1\<lparr>PORT := []\<rparr>)" by simp
  with s1 show ?thesis by simp
qed

lemma dev_audit_parse_halt:
  assumes "parse_args (args w) (initial\<lparr>trapped := True\<rparr>) = Halt n s'" "DEV_PID s' = None"
  shows "dev_audit w = Halt n s'"
  using assms
  by (simp add: dev_audit_def dev_audit_script_def set_trap_def run_exit_trap_def cleanup_def)


lemma preflight_parse_options:
  "preflight_options pre \<Longrightarrow>
   \<exists>s'. preflight_parse (pre @ xs) s = preflight_parse xs s' \<and> trace s' = trace s
        \<and> DEV_PID s' = DEV_PID s \<and> procs s' = procs s \<and> trapped s' = trapped s
        \<and> last_bg s' = last_bg s"
proof (induction pre arbitrary: s rule: preflight_options.induct)
  case 1
  show ?case by (intro exI [of _ s]) simp
next
  case (2 a rest)
  show ?case
  proof (cases "a \<in> set [''--audit'', ''--dev'', ''--logs'']")
    case True
    with 2 have opts: "preflight_options rest" by simp
    from True consider "a = ''--audit''" | "a = ''--dev''" | "a = ''--logs''"
      by auto
    then show ?thesis
    proof cases
      case 1
      from "2.IH"(1) [OF True opts, of "s\<lparr>MODE := ''audit''\<rparr>"] 1 show ?thesis by auto
    next
      case 2
      from "2.IH"(1) [OF True opts, of "s\<lparr>MODE := ''dev''\<rparr>"] 2 show ?thesis by auto
    next
      case 3
      from "2.IH"(1) [OF True opts, of "s\<lparr>SHOW_LOGS := ''1''\<rparr>"] 3 show ?thesis by auto
    qed
  next
    case False
    with "2.prems" have valued: "a \<in> set [''--port'', ''--timeout'']" by (auto split: if_splits)
    with "2.prems" False obtain v rest' where rest: "rest = v # rest'" and opts: "preflight_options rest'"
      by (cases rest) auto
    from valued consider "a = ''--port''" | "a = ''--timeout''" by auto
    then show ?thesis
    proof cases
      case 1
      from "2.IH"(2) [OF False valued rest opts, of "s\<lparr>PORT := v\<rparr>"] 1 rest
      show ?thesis by auto
    next
      case 2
      from "2.IH"(2) [OF False valued rest opts, of "s\<lparr>TIMEOUT := v\<rparr>"] 2 rest
      show ?thesis by auto
    qed
  qed
qed

lemma preflight_parse_unknown:
  assumes "preflight_options pre" "bad \<notin> set preflight_flags"
  shows "\<exists>s'. preflight_parse (pre @ bad # rest) s = Halt 1 s'
        \<and> trace s' = trace s @ Print (''Unknown arg: '' @ bad) # map Print usage
        \<and> DEV_PID s' = DEV_PID s \<and> procs s' = procs s \<and> trapped s' = trapped s"
proof -
  from preflight_parse_options [OF assms(1), of "bad # rest" s] obtain s1 where
    s1: "preflight_parse (pre @ bad # rest) s = preflight_parse (bad # rest) s1" "trace s1 = trace s"
        "DEV_PID s1 = DEV_PID s" "procs s1 = procs s" "trapped s1 = trapped s"
    by blast
  from assms(2) have "preflight_parse (bad # rest) s1
      = Halt 1 (emits (Print (''Unknown arg: '' @ bad) # map Print usage) s1)"
    by (simp add: preflight_flags_def)
  with s1 show ?thesis by (simp add: emits_def)
qed

lemma preflight_parse_halt:
  assumes "preflight_parse (args w) initial = Halt n s'" "trapped s' = False"
  shows "preflight w = Halt n s'"
  using assms
  by (simp add: preflight_def preflight_script_def run_exit_trap_def)

text \<open>
  C5, as amended. When an argument that is no flag of the script stands where the parser
  expects a flag, after complete options only, the run ends with status 1 and its whole
  trace is the message: no check has printed anything, no server was spawned.
  preflight.sh prints \<^verbatim>\<open>Unknown arg\<close> and then the usage text; dev-audit.sh prints the
  \<^verbatim>\<open>FAIL Unknown arg\<close> line alone.
\<close>

theorem unknown_flag_exits:
  "(audit_options pre \<and> bad \<notin> set audit_flags \<and> args w = pre @ bad # rest \<longrightarrow>
      exit_status (dev_audit w) = Some 1
      \<and> printed (dev_audit w) = [FAIL (''Unknown arg: '' @ bad)]
      \<and> procs (state_of (dev_audit w)) = [])
   \<and> (preflight_options pre' \<and> bad' \<notin> set preflight_flags \<and> args w' = pre' @ bad' # rest' \<longrightarrow>
      exit_status (preflight w') = Some 1
      \<and> printed (preflight w') = Print (''Unknown arg: '' @ bad') # map Print usage
      \<and> procs (state_of (preflight w')) = [])"
proof (intro conjI impI)
  assume h: "audit_options pre \<and> bad \<notin> set audit_flags \<and> args w = pre @ bad # rest"
  from parse_args_unknown [of pre bad rest "initial\<lparr>trapped := True\<rparr>"] h obtain s' where
    s': "parse_args (args w) (initial\<lparr>trapped := True\<rparr>) = Halt 1 s'"
        "trace s' = trace (initial\<lparr>trapped := True\<rparr>) @ [FAIL (''Unknown arg: '' @ bad)]"
        "DEV_PID s' = DEV_PID (initial\<lparr>trapped := True\<rparr>)"
        "procs s' = procs (initial\<lparr>trapped := True\<rparr>)"
    by auto
  then have "dev_audit w = Halt 1 s'"
    by (intro dev_audit_parse_halt) (simp_all add: initial_def)
  with s' show "exit_status (dev_audit w) = Some 1" 
    and "printed (dev_audit w) = [FAIL (''Unknown arg: '' @ bad)]"
    and "procs (state_of (dev_audit w)) = []"
    by (simp_all add: printed_def initial_def)
next
  assume h: "preflight_options pre' \<and> bad' \<notin> set preflight_flags \<and> args w' = pre' @ bad' # rest'"
  from preflight_parse_unknown [of pre' bad' rest' initial] h obtain s' where
    s': "preflight_parse (args w') initial = Halt 1 s'"
        "trace s' = trace initial @ Print (''Unknown arg: '' @ bad') # map Print usage"
        "trapped s' = trapped initial"
        "procs s' = procs initial"
    by auto
  then have "preflight w' = Halt 1 s'"
    by (intro preflight_parse_halt) (simp_all add: initial_def)
  with s' show "exit_status (preflight w') = Some 1" 
    and "printed (preflight w') = Print (''Unknown arg: '' @ bad') # map Print usage"
    and "procs (state_of (preflight w')) = []"
    by (simp_all add: printed_def initial_def)
qed

text \<open>The same on two concrete command lines.\<close>

theorem unknown_flag_exits_witness:
  "exit_status (dev_audit (site\<lparr>args := [''--dev'', ''--port'', ''8080'', ''--bogus'', ''--yes'']\<rparr>)) = Some 1
   \<and> printed (dev_audit (site\<lparr>args := [''--dev'', ''--port'', ''8080'', ''--bogus'', ''--yes'']\<rparr>))
       = [FAIL ''Unknown arg: --bogus'']
   \<and> exit_status (preflight (site\<lparr>args := [''--dev'', ''--verbose'']\<rparr>)) = Some 1
   \<and> printed (preflight (site\<lparr>args := [''--dev'', ''--verbose'']\<rparr>))
       = Print ''Unknown arg: --verbose'' # map Print usage"
  using unknown_flag_exits [of "[''--dev'', ''--port'', ''8080'']" "''--bogus''"
      "site\<lparr>args := [''--dev'', ''--port'', ''8080'', ''--bogus'', ''--yes'']\<rparr>" "[''--yes'']"
      "[''--dev'']" "''--verbose''" "site\<lparr>args := [''--dev'', ''--verbose'']\<rparr>" "[]"]
  by (simp add: audit_flags_def preflight_flags_def)

text \<open>
  C5 as it was stated does not hold: a help flag met first ends either script with status
  0 whatever follows, and the message of dev-audit.sh for an unknown flag holds no usage
  text.
\<close>

theorem help_before_unknown_flag:
  "exit_status (dev_audit (site\<lparr>args := [''--help'', ''--bogus'']\<rparr>)) = Some 0
   \<and> exit_status (preflight (site\<lparr>args := [''--help'', ''--bogus'']\<rparr>)) = Some 0
   \<and> printed (dev_audit (site\<lparr>args := [''--bogus'']\<rparr>)) = [FAIL ''Unknown arg: --bogus'']"
  by (simp add: dev_audit_def dev_audit_script_def set_trap_def preflight_def preflight_script_def
      run_exit_trap_def cleanup_def initial_def emits_def emit_def fail_def printed_def)

text \<open>
  C10, as amended. With \<^verbatim>\<open>--port\<close> as the last argument of dev-audit.sh, after complete
  options, the port becomes the empty string, the closing \<^verbatim>\<open>shift\<close> of the loop fails, and
  the script ends with status 1 having printed nothing: no usage text and no check.
\<close>

theorem port_last_exits:
  "audit_options pre \<and> args w = pre @ [''--port''] \<longrightarrow>
     exit_status (dev_audit w) = Some 1 \<and> printed (dev_audit w) = []
     \<and> PORT (state_of (dev_audit w)) = []"
proof
  assume h: "audit_options pre \<and> args w = pre @ [''--port'']"
  from parse_args_port_last [of pre "initial\<lparr>trapped := True\<rparr>"] h obtain s' where
    s': "parse_args (args w) (initial\<lparr>trapped := True\<rparr>) = Halt 1 s'"
        "trace s' = trace (initial\<lparr>trapped := True\<rparr>)" "PORT s' = []"
        "DEV_PID s' = DEV_PID (initial\<lparr>trapped := True\<rparr>)"
    by auto
  then have "dev_audit w = Halt 1 s'"
    by (intro dev_audit_parse_halt) (simp_all add: initial_def)
  with s' show "exit_status (dev_audit w) = Some 1 \<and> printed (dev_audit w) = []
     \<and> PORT (state_of (dev_audit w)) = []"
    by (simp add: printed_def initial_def)
qed

text \<open>The same for \<^verbatim>\<open>--dev --port\<close>.\<close>

theorem port_last_exits_witness:
  "exit_status (dev_audit (site\<lparr>args := [''--dev'', ''--port'']\<rparr>)) = Some 1
   \<and> printed (dev_audit (site\<lparr>args := [''--dev'', ''--port'']\<rparr>)) = []
   \<and> PORT (state_of (dev_audit (site\<lparr>args := [''--dev'', ''--port'']\<rparr>))) = []"
  using port_last_exits [of "[''--dev'']" "site\<lparr>args := [''--dev'', ''--port'']\<rparr>"]
  by simp

text \<open>
  C10 as it was stated does not hold: \<^verbatim>\<open>dev-audit.sh --port\<close> on a site where every
  check would pass exits with status 1 and runs no check.
\<close>

theorem port_last_not_a_run:
  "exit_status (dev_audit (site\<lparr>args := [''--port'']\<rparr>)) = Some 1
   \<and> printed (dev_audit (site\<lparr>args := [''--port'']\<rparr>)) = []"
  by (simp add: dev_audit_def dev_audit_script_def set_trap_def
      run_exit_trap_def cleanup_def initial_def printed_def)

section \<open>Properties of the text utilities\<close>











text \<open>The only number printed as \<^verbatim>\<open>1\<close> is one.\<close>

lemma dec_nonempty: "dec n \<noteq> []"
  by (subst dec.simps) simp

lemma digit_one: "n < 10 \<Longrightarrow> (''0123456789'' ! n = CHR ''1'') = (n = 1)"
proof -
  have "\<forall>k<10. (''0123456789'' ! k = CHR ''1'') = (k = 1)"
    by (simp add: numeral_eq_Suc All_less_Suc)
  then show "n < 10 \<Longrightarrow> ?thesis" by blast
qed

lemma dec_is_one: "dec n = ''1'' \<longleftrightarrow> n = 1"
proof (cases "n < 10")
  case True
  then show ?thesis by (subst dec.simps) (simp add: digit_one)
next
  case False
  have "length (dec (n div 10) @ [''0123456789'' ! (n mod 10)]) \<ge> 2"
    using dec_nonempty [of "n div 10"] by (cases "dec (n div 10)") auto
  with False have "length (dec n) \<ge> 2" by (subst dec.simps) simp
  with False show ?thesis by auto
qed


section \<open>Properties of the static checks\<close>

text \<open>
  C4. The claim wants the structural check to pass exactly when the document holds one
  doctype declaration. The scripts count with \<^verbatim>\<open>grep -ci\<close>, that is by lines: a document
  whose two doctype declarations stand on one line is counted as 1 and passes the check of
  dev-audit.sh as well as that of preflight.sh.
\<close>

theorem two_doctypes_on_one_line:
  "occurrences_ci ''<!doctype html'' pasted = 2
   \<and> continues (check_single_document (site\<lparr>index_text := pasted\<rparr>) initial)
   \<and> continues (preflight_structure (site\<lparr>index_text := pasted\<rparr>) initial)"
  by code_simp

text \<open>
  What the structural checks do decide: that exactly one LINE holds a doctype declaration
  and exactly one line a closing \<^verbatim>\<open></html>\<close>.
\<close>

lemma check_single_document_lines:
  "continues (check_single_document w s) \<longleftrightarrow>
     grep_c (contains_ci ''<!doctype html'') (index_text w) = 1
     \<and> grep_c (contains_ci ''</html>'') (index_text w) = 1
     \<and> \<not> grep_q artifact_line (index_text w)"
  by (simp add: check_single_document_def Let_def fail_def dec_is_one)

lemma preflight_structure_lines:
  "continues (preflight_structure w s) \<longleftrightarrow>
     regular w (preflight_index w)
     \<and> grep_c (contains_ci ''<!doctype html'') (index_text w) = 1
     \<and> grep_c (contains_ci ''</html>'') (index_text w) = 1"
  by (auto simp add: preflight_structure_def count_lines_def Let_def fail_def dec_is_one)

text \<open>The two loops over a manifest, in closed form.\<close>

lemma required_loop_eq:
  "required_loop w fs m s =
     (if missing_from w fs = [] then m else ''1'',
      emits (map (\<lambda>f. Print (''MISSING: '' @ f)) (missing_from w fs)) s)"
  by (induction fs arbitrary: m s) (auto simp: missing_from_def emits_def emit_def)

lemma preflight_required_loop_eq:
  "preflight_required_loop w fs s =
     (case missing_under w fs of
        [] \<Rightarrow> Continue s
      | f # others \<Rightarrow> Halt 1 (emit (FAIL (''Missing required: '' @ f)) s))"
  by (induction fs arbitrary: s) (auto simp: missing_under_def fail_def)

text \<open>
  C2, as amended. \<^verbatim>\<open>check_required_files\<close> of dev-audit.sh prints one \<^verbatim>\<open>MISSING\<close> line
  for every manifest path that is not a regular file, in manifest order, and only then
  fails; the loop of preflight.sh fails at the first such path and names that one alone.
  Either check ends the run with status 1 exactly when some manifest path is not a
  regular file.
\<close>

theorem required_files_report:
  "check_required_files w manifest s =
     (if missing_from w manifest = []
      then Continue (emits [INFO ''Required file presence checks'',
                            OK ''All required files present''] s)
      else Halt 1 (emits (INFO ''Required file presence checks''
                     # map (\<lambda>f. Print (''MISSING: '' @ f)) (missing_from w manifest)
                     @ [FAIL ''Missing required files (see list above)'']) s))
   \<and> preflight_required w manifest s =
     (case missing_under w manifest of
        [] \<Rightarrow> Continue (emits [INFO ''Checking required files'', OK ''Required files present''] s)
      | f # others \<Rightarrow>
          Halt 1 (emits [INFO ''Checking required files'', FAIL (''Missing required: '' @ f)] s))"
  by (simp add: check_required_files_def preflight_required_def required_loop_eq
      preflight_required_loop_eq fail_def emits_def emit_def split: list.splits)

text \<open>Both checks on a site that lacks two, respectively one, of the files.\<close>

theorem required_files_report_witness:
  "check_required_files (site\<lparr>regular := (\<lambda>p. p \<notin> set [''robots.txt'', ''css/base.css''])\<rparr>)
      REQ_FILES initial
     = Halt 1 (emits [INFO ''Required file presence checks'', Print ''MISSING: robots.txt'',
                 Print ''MISSING: css/base.css'',
                 FAIL ''Missing required files (see list above)''] initial)
   \<and> preflight_required (site\<lparr>regular := (\<lambda>p. p \<noteq> ''/site/js/main.js'')\<rparr>) REQUIRED initial
     = Halt 1 (emits [INFO ''Checking required files'', FAIL ''Missing required: js/main.js'']
                 initial)"
  using required_files_report
    [of "site\<lparr>regular := (\<lambda>p. p \<notin> set [''robots.txt'', ''css/base.css''])\<rparr>" REQ_FILES initial]
    required_files_report
    [of "site\<lparr>regular := (\<lambda>p. p \<noteq> ''/site/js/main.js'')\<rparr>" REQUIRED initial]
  by (simp add: missing_from_def missing_under_def REQ_FILES_def REQUIRED_def site_def)

text \<open>
  C2 as it was stated does not hold for preflight.sh: with all five of its required files
  missing, it reports the first one only.
\<close>

theorem preflight_stops_at_first_missing:
  "length (missing_under bare REQUIRED) = 5
   \<and> printed (preflight_required bare REQUIRED initial)
       = [INFO ''Checking required files'', FAIL ''Missing required: robots.txt'']"
  by (simp add: missing_under_def REQUIRED_def preflight_required_def fail_def emit_def
      printed_def initial_def bare_def)














text \<open>
  A path with a blank in it is extracted whole but reaches the loops in two words
  (\<^verbatim>\<open>for r in $refs\<close> is unquoted).
\<close>

lemma unquoted_reference_is_split:
  \<open>grep_refs ''<a href="/my file.pdf">cv</a>'' = [''/my file.pdf'']
   \<and> loop_words site (extract_refs ''<a href="/my file.pdf">cv</a>'') = [''/my'', ''file.pdf'']\<close>
  by code_simp

section \<open>Properties of the readiness polls\<close>





lemma rounds_Suc: "rounds (Suc n) ms = Probe # Sleep ms # rounds n ms"
  by (simp add: rounds_def)

lemma rounds_0: "rounds 0 ms = []"
  by (simp add: rounds_def)

lemma probes_append: "probes (a @ b) = probes a + probes b"
  by (simp add: probes_def)

lemma probes_rounds: "probes (rounds n ms) = n"
  by (induction n) (simp_all add: rounds_Suc rounds_0 probes_def)







text \<open>
  The loop of preflight.sh, for a timeout that is an integer numeral \<open>k\<close>: with \<open>t\<close> turns
  done it makes at most \<open>max 1 (k - t)\<close> further requests.
\<close>

lemma TIMEOUT_emits [simp]: "TIMEOUT (emits es s) = TIMEOUT s"
  by (simp add: emits_def)

lemma PORT_emits [simp]: "PORT (emits es s) = PORT s"
  by (simp add: emits_def)











section \<open>Properties of the server launcher and of the exit trap\<close>

text \<open>
  Only the launchers start processes: every other stage of dev mode leaves the list of
  spawned servers as it found it.
\<close>

lemma spawned_append: "spawned (a @ b) = spawned a @ spawned b"
  by (induction a rule: spawned.induct) simp_all

lemma requested_append: "requested (a @ b) = requested a @ requested b"
  by (induction a rule: requested.induct) simp_all

lemma spawned_prints: "spawned (map Print ls) = []"
  by (induction ls) simp_all

lemma ready_loop_spawned: "spawned (trace (snd (ready_loop w xs s))) = spawned (trace s)"
  by (induction xs arbitrary: s) (simp_all add: emit_def spawned_append)

lemma await_server_spawned: "spawned (printed (await_server w s)) = spawned (trace s)"
proof -
  let ?s1 = "emit (INFO (''Waiting for http://localhost:'' @ PORT s @ '' to respond'')) s"
  obtain ok s' where r: "ready_loop w [1..<31] ?s1 = (ok, s')"
    by (cases "ready_loop w [1..<31] ?s1")
  have "spawned (trace (snd (ready_loop w [1..<31] ?s1))) = spawned (trace ?s1)"
    by (rule ready_loop_spawned)
  with r have "spawned (trace s') = spawned (trace s)" by (simp add: emit_def spawned_append)
  with r show ?thesis
    by (cases ok)
       (simp_all add: await_server_def printed_def fail_def dump_log_def emit_def emits_def
          spawned_append spawned_prints)
qed

lemma smoke_loop_spawned: "spawned (printed (smoke_loop w ps s)) = spawned (trace s)"
  by (induction ps arbitrary: s)
     (simp_all add: printed_def Let_def fail_def emit_def spawned_append)

lemma smoke_test_endpoints_spawned:
  "spawned (printed (smoke_test_endpoints w s)) = spawned (trace s)"
proof -
  let ?s1 = "emit (INFO ''Smoke testing key endpoints (HTTP 200 expected)'') s"
  have "spawned (printed (smoke_loop w smoke_paths ?s1)) = spawned (trace ?s1)"
    by (rule smoke_loop_spawned)
  then show ?thesis
    by (cases "smoke_loop w smoke_paths ?s1")
       (simp_all add: smoke_test_endpoints_def printed_def emit_def spawned_append)
qed

lemma dev_complete_spawned: "spawned (printed (dev_complete s)) = spawned (trace s)"
  by (simp add: dev_complete_def printed_def emit_def spawned_append split: option.splits)

lemma steps_spawned:
  "(\<And>f s. f \<in> set fs \<Longrightarrow> spawned (printed (f s)) = spawned (trace s)) \<Longrightarrow>
   spawned (printed (steps fs s)) = spawned (trace s)"
proof (induction fs arbitrary: s)
  case Nil
  then show ?case by (simp add: printed_def)
next
  case (Cons f fs)
  have head: "spawned (printed (f s)) = spawned (trace s)" by (rule Cons.prems) simp
  show ?case
  proof (cases "f s")
    case (Continue s')
    have "spawned (printed (steps fs s')) = spawned (trace s')"
      by (rule Cons.IH) (simp add: Cons.prems)
    with Continue head show ?thesis by (simp add: printed_def)
  next
    case (Halt n s')
    with head show ?thesis by (simp add: printed_def)
  next
    case (Idle s')
    with head show ?thesis by (simp add: printed_def)
  qed
qed

lemma steps_spawned_head:
  assumes "\<And>g s. g \<in> set fs \<Longrightarrow> spawned (printed (g s)) = spawned (trace s)"
  shows "spawned (printed (steps (f # fs) s)) = spawned (printed (f s))"
proof (cases "f s")
  case (Continue s')
  have "spawned (printed (steps fs s')) = spawned (trace s')"
    by (rule steps_spawned) (rule assms)
  with Continue show ?thesis by (simp add: printed_def)
qed (simp_all add: printed_def)

lemma launch_spawned:
  "spawned (printed (launch w s)) = spawned (trace s)
     @ (if have_cmd w ''vercel'' then [''vercel'']
        else if have_cmd w ''python3'' then [''python3''] else [])"
  by (simp add: launch_def assign_dev_pid_def spawn_in_subshell_def printed_def fail_def
      emit_def spawned_append Let_def split: option.splits)

lemma preflight_launch_spawned:
  "spawned (printed (preflight_launch w s)) = spawned (trace s)
     @ (if have_cmd w ''vercel'' then [''vercel'']
        else if have_cmd w ''python3'' then [''python3''] else [])"
  by (simp add: preflight_launch_def assign_dev_pid_def spawn_in_subshell_def printed_def
      fail_def emit_def spawned_append Let_def split: option.splits)

lemma wait_ready_spawned: "spawned (printed (wait_ready w t s)) = spawned (trace s)"
proof (induction w t s rule: wait_ready.induct)
  case (1 w t s)
  let ?s1 = "emit (Sleep 500) (emit Probe s)"
  have s1: "spawned (trace ?s1) = spawned (trace s)" by (simp add: emit_def spawned_append)
  show ?case
  proof (cases "curl_ok (probe w (t + 1))")
    case True
    then show ?thesis
      by (subst wait_ready.simps) (simp add: printed_def emit_def spawned_append)
  next
    case refused: False
    show ?thesis
    proof (cases "test_lt (t + 1) (TIMEOUT s)")
      case True
      from "1.IH" [OF refused refl True] s1 refused True show ?thesis
        by (subst wait_ready.simps) simp
    next
      case False
      with refused show ?thesis
        by (subst wait_ready.simps) (simp add: fail_def printed_def emit_def spawned_append)
    qed
  qed
qed

lemma preflight_await_spawned: "spawned (printed (preflight_await w s)) = spawned (trace s)"
  using wait_ready_spawned [of w 0 s]
  by (cases "wait_ready w 0 s")
     (simp_all add: preflight_await_def printed_def emit_def spawned_append)

lemma preflight_smoke_loop_spawned:
  "spawned (printed (preflight_smoke_loop w ps s)) = spawned (trace s)"
  by (induction ps arbitrary: s)
     (simp_all add: printed_def Let_def fail_def emit_def spawned_append)

lemma smoke_tests_spawned: "spawned (printed (smoke_tests w s)) = spawned (trace s)"
proof -
  have "spawned (printed (preflight_smoke_loop w preflight_smoke_paths (banner ''SMOKE TESTS'' s)))
          = spawned (trace (banner ''SMOKE TESTS'' s))"
    by (rule preflight_smoke_loop_spawned)
  then show ?thesis
    by (cases "preflight_smoke_loop w preflight_smoke_paths (banner ''SMOKE TESTS'' s)")
       (simp_all add: smoke_tests_def printed_def banner_def emits_def emit_def Let_def
          spawned_append spawned_prints)
qed

lemma preflight_dev_complete_spawned:
  "spawned (printed (preflight_dev_complete s)) = spawned (trace s)"
  by (simp add: preflight_dev_complete_def printed_def emit_def spawned_append
      split: option.splits)

text \<open>
  C8, as amended. In dev mode, and for dev-audit.sh unless \<^verbatim>\<open>--no-dev\<close> was given, the whole
  dev stage starts exactly one server when a tool is there: \<^verbatim>\<open>vercel\<close> if it is installed,
  otherwise \<^verbatim>\<open>python3\<close> if that is installed, never both. With neither installed the
  stage ends with status 1 right after its no-server-tool message: nothing is spawned and
  no smoke-test request is made.
\<close>

theorem launcher_selects_first_available:
  "(MODE s = ''dev'' \<and> NO_DEV s \<noteq> ''1'' \<longrightarrow>
      spawned (printed (dev_or_done w s)) = spawned (trace s)
        @ (if have_cmd w ''vercel'' then [''vercel'']
           else if have_cmd w ''python3'' then [''python3''] else []))
   \<and> (MODE s = ''dev'' \<and> NO_DEV s \<noteq> ''1''
       \<and> \<not> have_cmd w ''vercel'' \<and> \<not> have_cmd w ''python3'' \<longrightarrow>
      dev_or_done w s =
        Halt 1 (emits [WARN (''Vercel CLI not found. Fallback to python http.server on port ''
                         @ PORT s),
                       FAIL ''Neither vercel nor python3 available to run a local server.''] s)
      \<and> requested (printed (dev_or_done w s)) = requested (trace s))
   \<and> (MODE s = ''dev'' \<longrightarrow>
      spawned (printed (preflight_dev w s)) = spawned (trace s)
        @ (if have_cmd w ''vercel'' then [''vercel'']
           else if have_cmd w ''python3'' then [''python3''] else []))
   \<and> (MODE s = ''dev'' \<and> \<not> have_cmd w ''vercel'' \<and> \<not> have_cmd w ''python3'' \<longrightarrow>
      preflight_dev w s =
        Halt 1 (emits [INFO (''Starting dev server on port '' @ PORT s),
                       FAIL ''No server tool (vercel or python3) found''] s)
      \<and> requested (printed (preflight_dev w s)) = requested (trace s))"
proof (intro conjI impI)
  assume h: "MODE s = ''dev'' \<and> NO_DEV s \<noteq> ''1''"
  have "spawned (printed (steps [start_dev_server w, smoke_test_endpoints w, dev_complete] s))
          = spawned (printed (start_dev_server w s))"
    by (rule steps_spawned_head)
       (auto simp: smoke_test_endpoints_spawned dev_complete_spawned)
  also from h have "start_dev_server w s = steps [launch w, await_server w] s"
    by (simp add: start_dev_server_def)
  also have "spawned (printed (steps [launch w, await_server w] s))
          = spawned (printed (launch w s))"
    by (rule steps_spawned_head) (auto simp: await_server_spawned)
  finally show "spawned (printed (dev_or_done w s)) = spawned (trace s)
        @ (if have_cmd w ''vercel'' then [''vercel'']
           else if have_cmd w ''python3'' then [''python3''] else [])"
    using h by (simp add: dev_or_done_def launch_spawned)
next
  assume "MODE s = ''dev'' \<and> NO_DEV s \<noteq> ''1''
       \<and> \<not> have_cmd w ''vercel'' \<and> \<not> have_cmd w ''python3''"
  then show "dev_or_done w s =
        Halt 1 (emits [WARN (''Vercel CLI not found. Fallback to python http.server on port ''
                         @ PORT s),
                       FAIL ''Neither vercel nor python3 available to run a local server.''] s)"
    and "requested (printed (dev_or_done w s)) = requested (trace s)"
    by (simp_all add: dev_or_done_def start_dev_server_def launch_def fail_def emits_def emit_def
        printed_def requested_append)
next
  assume h: "MODE s = ''dev''"
  have "spawned (printed (steps [start_server w, smoke_tests w, preflight_dev_complete] s))
          = spawned (printed (start_server w s))"
    by (rule steps_spawned_head)
       (auto simp: smoke_tests_spawned preflight_dev_complete_spawned)
  also have "start_server w s = steps [preflight_launch w, preflight_await w] s"
    by (simp add: start_server_def)
  also have "spawned (printed (steps [preflight_launch w, preflight_await w] s))
          = spawned (printed (preflight_launch w s))"
    by (rule steps_spawned_head) (auto simp: preflight_await_spawned)
  finally show "spawned (printed (preflight_dev w s)) = spawned (trace s)
        @ (if have_cmd w ''vercel'' then [''vercel'']
           else if have_cmd w ''python3'' then [''python3''] else [])"
    using h by (simp add: preflight_dev_def preflight_launch_spawned)
next
  assume "MODE s = ''dev'' \<and> \<not> have_cmd w ''vercel'' \<and> \<not> have_cmd w ''python3''"
  then show "preflight_dev w s =
        Halt 1 (emits [INFO (''Starting dev server on port '' @ PORT s),
                       FAIL ''No server tool (vercel or python3) found''] s)"
    and "requested (printed (preflight_dev w s)) = requested (trace s)"
    by (simp_all add: preflight_dev_def start_server_def preflight_launch_def fail_def emits_def
        emit_def printed_def requested_append)
qed


text \<open>The same on the sample site, and on a machine without the two tools.\<close>

theorem launcher_selects_first_available_witness:
  "spawned (printed (dev_or_done site (initial\<lparr>MODE := ''dev''\<rparr>))) = [''vercel'']
   \<and> spawned (printed (preflight_dev site (initial\<lparr>MODE := ''dev''\<rparr>))) = [''vercel'']
   \<and> dev_or_done toolless (initial\<lparr>MODE := ''dev''\<rparr>) =
       Halt 1 (emits [WARN ''Vercel CLI not found. Fallback to python http.server on port 3000'',
                      FAIL ''Neither vercel nor python3 available to run a local server.'']
                 (initial\<lparr>MODE := ''dev''\<rparr>))
   \<and> preflight_dev toolless (initial\<lparr>MODE := ''dev''\<rparr>) =
       Halt 1 (emits [INFO ''Starting dev server on port 3000'',
                      FAIL ''No server tool (vercel or python3) found'']
                 (initial\<lparr>MODE := ''dev''\<rparr>))
   \<and> requested (printed (dev_or_done toolless (initial\<lparr>MODE := ''dev''\<rparr>))) = []
   \<and> requested (printed (preflight_dev toolless (initial\<lparr>MODE := ''dev''\<rparr>))) = []"
proof -
  let ?s = "initial\<lparr>MODE := ''dev''\<rparr>"
  have s: "MODE ?s = ''dev''" "NO_DEV ?s \<noteq> ''1''" "PORT ?s = ''3000''" "trace ?s = []"
    by (simp_all add: initial_def)
  have a: "have_cmd site ''vercel''" by (simp add: have_cmd_def site_def)
  have b: "\<not> have_cmd toolless ''vercel''" "\<not> have_cmd toolless ''python3''"
    by (simp_all add: have_cmd_def toolless_def site_def)
  from s a b launcher_selects_first_available [of ?s site]
    launcher_selects_first_available [of ?s toolless]
  show ?thesis by (simp add: printed_def emits_def)
qed

text \<open>
  C8 as it was stated does not hold for dev-audit.sh when \<^verbatim>\<open>--no-dev\<close> accompanies
  \<^verbatim>\<open>--dev\<close>: the launcher returns at once, so that without any tool the run still ends
  with status 1 but on the unset \<^verbatim>\<open>DEV_PID\<close>, not with the no-server-tool message, and
  with \<^verbatim>\<open>vercel\<close> installed no server is started.
\<close>

theorem no_dev_skips_the_launcher:
  "report (dev_audit (toolless\<lparr>args := [''--dev'', ''--no-dev'']\<rparr>))
     = (Some 1, [Err ''DEV_PID: unbound variable''], [], [], [])
   \<and> report (dev_audit (site\<lparr>args := [''--dev'', ''--no-dev'']\<rparr>))
     = (Some 1, [Err ''DEV_PID: unbound variable''], [], [], [])"
  by code_simp

text \<open>
  C1. The claim wants every spawned server terminated when the tool exits. In both
  scripts the server is put in the background inside a subshell, and \<^verbatim>\<open>DEV_PID=$!\<close> is
  then read in the main shell, where \<^verbatim>\<open>$!\<close> is unset. In dev-audit.sh \<^verbatim>\<open>cleanup\<close> therefore
  never has a process id to pass to \<^verbatim>\<open>kill_pid\<close>; preflight.sh sets no trap at all. On the
  sample site with \<^verbatim>\<open>--dev\<close>: a server that never answers makes dev-audit.sh fail with
  status 1, the trap runs, no signal is sent and process 4242 stays alive; the same when
  bash stops at \<^verbatim>\<open>$!\<close>; the same when the server answers, the script idles and is
  interrupted (signal 2); and the same for preflight.sh, on failure and on interruption.
\<close>

theorem spawned_server_outlives_the_run:
  "report (dev_audit (site\<lparr>args := [''--dev'']\<rparr>))
     = (Some 1, [FAIL ''Server did not become ready on port 3000''], [''vercel''], [], [''4242''])
   \<and> report (dev_audit (site\<lparr>args := [''--dev''], nounset_bang := True\<rparr>))
     = (Some 1, [Err ''$!: unbound variable''], [''vercel''], [], [''4242''])
   \<and> report (deliver 2 (dev_audit ((answering 200)\<lparr>args := [''--dev'']\<rparr>)))
     = (None, [], [''vercel''], [], [''4242''])
   \<and> report (preflight (site\<lparr>args := [''--dev'']\<rparr>))
     = (Some 1, [FAIL ''Server not ready after 12 sec''], [''vercel''], [], [''4242''])
   \<and> report (deliver 2 (preflight ((answering 200)\<lparr>args := [''--dev'', ''--logs'']\<rparr>)))
     = (Some 130, [], [''vercel''], [], [''4242''])"
  by code_simp

text \<open>
  The termination routine itself is sound: \<^verbatim>\<open>kill_pid\<close> may be called again on a process
  that is gone, and \<^verbatim>\<open>cleanup\<close> does stop the server whose process id \<^verbatim>\<open>DEV_PID\<close> holds.
\<close>

lemma kill_pid_idempotent: "kill_pid pid (kill_pid pid s) = kill_pid pid s"
  by (simp add: kill_pid_def emits_def)

lemma cleanup_stops_known_server:
  "DEV_PID s = Some pid \<Longrightarrow> pid \<noteq> [] \<Longrightarrow> pid \<notin> set (procs (cleanup s))"
  by (simp add: cleanup_def kill_pid_def emits_def emit_def)

end
